theory Spec2Isabelle
  imports Complex_Main
begin

section \<open>Python values\<close>

text \<open>
  The monitor computes with Python floats. They are modelled by exact real numbers
  extended with the one non-finite value the program creates itself,
  \<^verbatim>\<open>float("inf")\<close>: rounding, overflow, NaN and the sign of zero are not modelled.
  The numeric fields of a flight record are finite reals.
\<close>

datatype pyfloat = Num real | PosInf

text \<open>\<^verbatim>\<open>a <= b\<close> and \<open>a < b\<close> on floats, with \<open>inf\<close> above every number.\<close>

fun py_le :: "pyfloat \<Rightarrow> pyfloat \<Rightarrow> bool" where
  "py_le (Num a) (Num b) = (a \<le> b)"
| "py_le (Num a) PosInf = True"
| "py_le PosInf (Num b) = False"
| "py_le PosInf PosInf = True"

fun py_lt :: "pyfloat \<Rightarrow> pyfloat \<Rightarrow> bool" where
  "py_lt (Num a) (Num b) = (a < b)"
| "py_lt (Num a) PosInf = True"
| "py_lt PosInf b = False"

text \<open>
  \<^verbatim>\<open>x * c\<close> and \<^verbatim>\<open>x / c\<close> for a positive constant \<open>c\<close> (the program only uses
  0.3048, 60 and 1000): \<open>inf\<close> stays \<open>inf\<close>.
\<close>

fun py_mul_const :: "pyfloat \<Rightarrow> real \<Rightarrow> pyfloat" where
  "py_mul_const (Num x) c = Num (x * c)"
| "py_mul_const PosInf c = PosInf"

fun py_div_const :: "pyfloat \<Rightarrow> real \<Rightarrow> pyfloat" where
  "py_div_const (Num x) c = Num (x / c)"
| "py_div_const PosInf c = PosInf"

text \<open>The exceptions the modelled code can raise.\<close>

datatype py_error = ZeroDivisionError | ValueError | UnboundLocalError

text \<open>\<^verbatim>\<open>a / b\<close> on finite floats raises on a zero divisor.\<close>

definition py_truediv :: "real \<Rightarrow> real \<Rightarrow> py_error + real" where
  "py_truediv a b = (if b = 0 then Inl ZeroDivisionError else Inr (a / b))"

text \<open>\<^verbatim>\<open>str(v)\<close> of an optional string, as an f-string renders it.\<close>

fun py_str :: "string option \<Rightarrow> string" where
  "py_str None = ''None''"
| "py_str (Some s) = s"

section \<open>Data model\<close>

text \<open>
  The dictionary \<^verbatim>\<open>flight["position"]\<close>. \<open>latitude\<close> and \<open>longitude\<close> are read with
  \<^verbatim>\<open>pos[...]\<close> and are always present in a record of this type; the other three are
  read with \<^verbatim>\<open>pos.get(...)\<close>, \<open>None\<close> standing for an absent key.
\<close>

record flight_position =
  latitude :: real
  longitude :: real
  altitude :: "real option"
  ground_speed :: "real option"
  heading :: "real option"

text \<open>
  A flight of the feed. \<open>aircraft_code\<close> is \<^verbatim>\<open>flight["aircraft"].get("code")\<close>;
  \<open>number\<close>, \<open>callsign\<close> and \<open>icao_24bit\<close> are read with \<^verbatim>\<open>flight.get(...)\<close>.
\<close>

record flight =
  number :: "string option"
  callsign :: "string option"
  icao_24bit :: "string option"
  aircraft_code :: "string option"
  position :: flight_position

text \<open>The response of the feed: \<^verbatim>\<open>flights_data.get("found")\<close> and its flights.\<close>

record flights_data =
  found :: bool
  flights :: "flight list"

text \<open>
  The module's constants, read from the environment once. The low-altitude threshold
  is parsed with \<^verbatim>\<open>int\<close>, the three alert thresholds with \<^verbatim>\<open>float\<close>, which also
  accepts \<^verbatim>\<open>"inf"\<close>.
\<close>

record config =
  LOW_ALTITUDE_THRESHOLD_M :: int
  TARGET_AIRCRAFT_CODE :: "string option"
  ALERT_DISTANCE_THRESHOLD_KM :: pyfloat
  ALERT_TIME_THRESHOLD_MIN :: pyfloat
  ALERT_ALTITUDE_THRESHOLD_M :: pyfloat

section \<open>Geometry\<close>

definition feet_to_meters :: "pyfloat \<Rightarrow> pyfloat" where
  "feet_to_meters feet = py_mul_const feet 0.3048"

definition calculate_distance :: "flight \<Rightarrow> real \<Rightarrow> real \<Rightarrow> pyfloat" where
  "calculate_distance flight lat lon =
     (let pos = position flight;
          lat0 = latitude pos;
          lon0 = longitude pos;
          alt_m = feet_to_meters (Num (case altitude pos of None \<Rightarrow> 0 | Some a \<Rightarrow> a));
          dx_km = (lat0 - lat) * 111;
          dy_km = (lon0 - lon) * 111;
          horizontal_distance_km = sqrt (dx_km ^ 2 + dy_km ^ 2);
          horizontal_distance_m = horizontal_distance_km * 1000;
          distance_3d_m =
            (case alt_m of
               Num a \<Rightarrow> Num (sqrt (horizontal_distance_m ^ 2 + a ^ 2))
             | PosInf \<Rightarrow> PosInf)
      in py_div_const distance_3d_m 1000)"

definition deg2rad :: "real \<Rightarrow> real" where
  "deg2rad deg = deg * pi / 180"

definition time_until_closest :: "flight \<Rightarrow> real \<Rightarrow> real \<Rightarrow> py_error + pyfloat" where
  "time_until_closest flight lat lon =
     (let pos = position flight;
          lat0 = latitude pos;
          lon0 = longitude pos;
          speed_kmh = (case ground_speed pos of None \<Rightarrow> 0 | Some s \<Rightarrow> s);
          heading_deg = (case heading pos of None \<Rightarrow> 0 | Some h \<Rightarrow> h)
      in if speed_kmh = 0 then Inr PosInf
         else
           let heading_rad = deg2rad heading_deg;
               vx = sin heading_rad * speed_kmh;
               vy = cos heading_rad * speed_kmh;
               dx = (lat0 - lat) * 111;
               dy = (lon0 - lon) * 111;
               dot = dx * vx + dy * vy;
               speed_sq = vx ^ 2 + vy ^ 2
           in case (if speed_sq \<noteq> 0 then map_sum id Num (py_truediv (- dot) speed_sq)
                    else Inr PosInf) of
                Inl e \<Rightarrow> Inl e
              | Inr t_cpa \<Rightarrow>
                  if py_lt t_cpa (Num 0) then Inr PosInf
                  else Inr (py_mul_const t_cpa 60))"

section \<open>Decisions\<close>

definition is_target_aircraft :: "config \<Rightarrow> flight \<Rightarrow> bool" where
  "is_target_aircraft cfg flight = (aircraft_code flight = TARGET_AIRCRAFT_CODE cfg)"

definition is_low_altitude :: "config \<Rightarrow> flight \<Rightarrow> bool" where
  "is_low_altitude cfg flight =
     (let altitude_ft = (case altitude (position flight) of None \<Rightarrow> PosInf | Some a \<Rightarrow> Num a);
          altitude_m = feet_to_meters altitude_ft
      in py_lt altitude_m (Num (real_of_int (LOW_ALTITUDE_THRESHOLD_M cfg))))"

definition should_send_alert :: "config \<Rightarrow> flight \<Rightarrow> real \<Rightarrow> real \<Rightarrow> py_error + bool" where
  "should_send_alert cfg flight lat lon =
     (let altitude_ft = (case altitude (position flight) of None \<Rightarrow> PosInf | Some a \<Rightarrow> Num a);
          altitude_m = feet_to_meters altitude_ft;
          distance_km = calculate_distance flight lat lon
      in case time_until_closest flight lat lon of
           Inl e \<Rightarrow> Inl e
         | Inr time_until_closest_min \<Rightarrow>
             Inr (py_le altitude_m (ALERT_ALTITUDE_THRESHOLD_M cfg) \<and>
                  py_le distance_km (ALERT_DISTANCE_THRESHOLD_KM cfg) \<and>
                  py_le time_until_closest_min (ALERT_TIME_THRESHOLD_MIN cfg)))"

section \<open>The poll loop\<close>

text \<open>
  The label of a flight, computed inline in \<open>monitor_flights\<close>: the first of
  \<open>number\<close>, \<open>callsign\<close>, \<open>icao_24bit\<close> that is truthy and differs from \<^verbatim>\<open>"N/A"\<close>,
  and \<^verbatim>\<open>"N/A"\<close> when the generator is exhausted.
\<close>

definition flight_id :: "flight \<Rightarrow> string" where
  "flight_id flight =
     (case List.map_filter
             (\<lambda>v. case v of
                    None \<Rightarrow> None
                  | Some s \<Rightarrow> if s \<noteq> [] \<and> s \<noteq> ''N/A'' then Some s else None)
             [number flight, callsign flight, icao_24bit flight] of
        [] \<Rightarrow> ''N/A''
      | v # _ \<Rightarrow> v)"

text \<open>
  The text of the low-altitude alert, kept as the values its f-string interpolates:
  target code, flight label, altitude in metres, distance in km, minutes to the
  closest approach.
\<close>

datatype message = Low_altitude_alert "string option" string pyfloat pyfloat pyfloat

text \<open>What one run of the loop does to the outside: console lines and e-mails.\<close>

datatype event =
    Print_monitoring
  | Print_found nat
  | Print_detected_count nat
  | Print_alert message
  | Print_detected "string option" string pyfloat pyfloat pyfloat
  | Print_skipping_email
  | Print_separator
  | Print_none_detected
  | Send_email string message

definition alert_subject :: "config \<Rightarrow> string" where
  "alert_subject cfg = ''Aircraft '' @ py_str (TARGET_AIRCRAFT_CODE cfg) @ '' Alert''"

text \<open>
  The body of \<^verbatim>\<open>for flight in target_aircrafts_found\<close>. The local variable
  \<open>alert_message\<close> of \<open>monitor_flights\<close> is threaded through: \<open>None\<close> while it is unbound.
  It is assigned in the low-altitude branch only and read whenever the alert thresholds
  are met. With no altitude, \<open>altitude_m\<close> is the string \<^verbatim>\<open>"unknown"\<close>, which the format
  \<^verbatim>\<open>:.0f\<close> of either branch refuses with a \<open>ValueError\<close>.
\<close>

definition process_flight ::
  "config \<Rightarrow> real \<Rightarrow> real \<Rightarrow> flight \<Rightarrow> message option \<Rightarrow>
   py_error + (event list \<times> message option)" where
  "process_flight cfg lat lon flight alert_message =
     (let fid = flight_id flight;
          altitude_m = map_option (\<lambda>a. feet_to_meters (Num a)) (altitude (position flight));
          distance_km = calculate_distance flight lat lon
      in case time_until_closest flight lat lon of
           Inl e \<Rightarrow> Inl e
         | Inr minutes_until_closest \<Rightarrow>
             (case altitude_m of
                None \<Rightarrow> Inl ValueError
              | Some alt \<Rightarrow>
                  let (printed, alert_message') =
                        (if is_low_altitude cfg flight
                         then (let m = Low_altitude_alert (TARGET_AIRCRAFT_CODE cfg) fid alt
                                         distance_km minutes_until_closest
                               in ([Print_alert m], Some m))
                         else ([Print_detected (TARGET_AIRCRAFT_CODE cfg) fid alt
                                  distance_km minutes_until_closest],
                               alert_message))
                  in (case should_send_alert cfg flight lat lon of
                        Inl e \<Rightarrow> Inl e
                      | Inr send \<Rightarrow>
                          if send
                          then (case alert_message' of
                                  None \<Rightarrow> Inl UnboundLocalError
                                | Some m \<Rightarrow>
                                    Inr (printed @ [Send_email (alert_subject cfg) m],
                                         alert_message'))
                          else Inr (printed @ [Print_skipping_email], alert_message'))))"

fun process_flights ::
  "config \<Rightarrow> real \<Rightarrow> real \<Rightarrow> flight list \<Rightarrow> message option \<Rightarrow>
   py_error + (event list \<times> message option)" where
  "process_flights cfg lat lon [] alert_message = Inr ([], alert_message)"
| "process_flights cfg lat lon (flight # rest) alert_message =
     (case process_flight cfg lat lon flight alert_message of
        Inl e \<Rightarrow> Inl e
      | Inr (out, alert_message') \<Rightarrow>
          (case process_flights cfg lat lon rest alert_message' of
             Inl e \<Rightarrow> Inl e
           | Inr (out', alert_message'') \<Rightarrow> Inr (out @ out', alert_message'')))"

text \<open>One iteration of \<^verbatim>\<open>while True\<close>, given the response the feed returned.\<close>

definition poll_cycle ::
  "config \<Rightarrow> real \<Rightarrow> real \<Rightarrow> flights_data \<Rightarrow> message option \<Rightarrow>
   py_error + (event list \<times> message option)" where
  "poll_cycle cfg lat lon data alert_message =
     (let counted = [Print_found (length (flights data))]
      in if found data
         then
           let target_aircrafts_found = filter (is_target_aircraft cfg) (flights data)
           in if target_aircrafts_found \<noteq> []
              then (case process_flights cfg lat lon target_aircrafts_found alert_message of
                      Inl e \<Rightarrow> Inl e
                    | Inr (out, alert_message') \<Rightarrow>
                        Inr (counted @ [Print_detected_count (length target_aircrafts_found)]
                               @ out @ [Print_separator],
                             alert_message'))
              else Inr (counted @ [Print_none_detected], alert_message)
         else Inr (counted, alert_message))"

text \<open>
  The loop never ends by itself; it is run here over the responses of finitely many
  polls, stopping at the first exception, which nothing in the loop catches.
\<close>

fun monitor_loop ::
  "config \<Rightarrow> real \<Rightarrow> real \<Rightarrow> flights_data list \<Rightarrow> message option \<Rightarrow>
   py_error + (event list \<times> message option)" where
  "monitor_loop cfg lat lon [] alert_message = Inr ([], alert_message)"
| "monitor_loop cfg lat lon (data # later) alert_message =
     (case poll_cycle cfg lat lon data alert_message of
        Inl e \<Rightarrow> Inl e
      | Inr (out, alert_message') \<Rightarrow>
          (case monitor_loop cfg lat lon later alert_message' of
             Inl e \<Rightarrow> Inl e
           | Inr (out', alert_message'') \<Rightarrow> Inr (out @ out', alert_message'')))"

definition monitor_flights ::
  "config \<Rightarrow> real \<Rightarrow> real \<Rightarrow> flights_data list \<Rightarrow> py_error + event list" where
  "monitor_flights cfg lat lon responses =
     (case monitor_loop cfg lat lon responses None of
        Inl e \<Rightarrow> Inl e
      | Inr (out, _) \<Rightarrow> Inr (Print_monitoring # out))"

section \<open>Example inputs\<close>

text \<open>
  The observer of the examples stands at latitude 0, longitude 0. The first two flights
  are one degree of latitude north of it at 500 km/h, heading due south and due north.
\<close>

definition closing_flight :: flight where
  "closing_flight =
     \<lparr>number = None, callsign = None, icao_24bit = None, aircraft_code = None,
      position = \<lparr>latitude = 1, longitude = 0, altitude = Some 0,
                  ground_speed = Some 500, heading = Some 180\<rparr>\<rparr>"

definition receding_flight :: flight where
  "receding_flight =
     \<lparr>number = None, callsign = None, icao_24bit = None, aircraft_code = None,
      position = \<lparr>latitude = 1, longitude = 0, altitude = Some 0,
                  ground_speed = Some 500, heading = Some 0\<rparr>\<rparr>"

text \<open>A flight one degree of longitude away from the observer, heading 180 degrees.\<close>

definition abeam_flight :: flight where
  "abeam_flight =
     \<lparr>number = None, callsign = None, icao_24bit = None, aircraft_code = None,
      position = \<lparr>latitude = 0, longitude = 1, altitude = Some 0,
                  ground_speed = Some 500, heading = Some 180\<rparr>\<rparr>"

text \<open>A flight without any label, and one whose number is the placeholder.\<close>

definition anonymous_flight :: flight where
  "anonymous_flight =
     \<lparr>number = None, callsign = None, icao_24bit = None, aircraft_code = Some ''A400'',
      position = \<lparr>latitude = 0, longitude = 0, altitude = None,
                  ground_speed = None, heading = None\<rparr>\<rparr>"

definition placeholder_flight :: flight where
  "placeholder_flight =
     \<lparr>number = Some ''N/A'', callsign = Some ''RRR4005'', icao_24bit = Some ''43C6F1'',
      aircraft_code = Some ''A400'',
      position = \<lparr>latitude = 0, longitude = 0, altitude = None,
                  ground_speed = None, heading = None\<rparr>\<rparr>"

text \<open>A parked aircraft at the observer's position: no speed, no height.\<close>

definition parked_flight :: flight where
  "parked_flight =
     \<lparr>number = Some ''RR1'', callsign = None, icao_24bit = None, aircraft_code = Some ''A400'',
      position = \<lparr>latitude = 0, longitude = 0, altitude = Some 0,
                  ground_speed = Some 0, heading = Some 270\<rparr>\<rparr>"

text \<open>A flight right above the observer at 2000 ft (609.6 m), heading east.\<close>

definition overhead_flight :: flight where
  "overhead_flight =
     \<lparr>number = Some ''RR2'', callsign = None, icao_24bit = None, aircraft_code = Some ''A400'',
      position = \<lparr>latitude = 0, longitude = 0, altitude = Some 2000,
                  ground_speed = Some 400, heading = Some 90\<rparr>\<rparr>"

text \<open>The defaults of the module, and a configuration that calls "low" only below 500 m.\<close>

definition default_config :: config where
  "default_config =
     \<lparr>LOW_ALTITUDE_THRESHOLD_M = 1000, TARGET_AIRCRAFT_CODE = Some ''A400'',
      ALERT_DISTANCE_THRESHOLD_KM = Num 50, ALERT_TIME_THRESHOLD_MIN = Num 30,
      ALERT_ALTITUDE_THRESHOLD_M = Num 1000\<rparr>"

definition low500_config :: config where
  "low500_config = default_config\<lparr>LOW_ALTITUDE_THRESHOLD_M := 500\<rparr>"

definition overhead_response :: flights_data where
  "overhead_response = \<lparr>found = True, flights = [overhead_flight]\<rparr>"

text \<open>
  A flight right above the observer at 1000 ft (304.8 m), and a response in which it
  comes before the one at 2000 ft.
\<close>

definition low_flight :: flight where
  "low_flight =
     \<lparr>number = None, callsign = Some ''RRR4005'', icao_24bit = None,
      aircraft_code = Some ''A400'',
      position = \<lparr>latitude = 0, longitude = 0, altitude = Some 1000,
                  ground_speed = Some 400, heading = Some 90\<rparr>\<rparr>"

definition mixed_response :: flights_data where
  "mixed_response = \<lparr>found = True, flights = [low_flight, overhead_flight]\<rparr>"

text \<open>Whether a field can serve as the label: present, not empty and not the placeholder.\<close>

definition is_label :: "string option \<Rightarrow> bool" where
  "is_label v = (v \<noteq> None \<and> v \<noteq> Some [] \<and> v \<noteq> Some ''N/A'')"

section \<open>Facts about the arithmetic\<close>

lemma speed_sq_eq: "(sin a * s)\<^sup>2 + (cos a * s)\<^sup>2 = s\<^sup>2" for a s :: real
proof -
  have "(sin a * s)\<^sup>2 + (cos a * s)\<^sup>2 = ((sin a)\<^sup>2 + (cos a)\<^sup>2) * s\<^sup>2"
    by (simp only: power_mult_distrib distrib_right)
  also have "\<dots> = s\<^sup>2"
    by (simp only: sin_cos_squared_add mult_1)
  finally show ?thesis .
qed

lemma speed_sq_nonzero: "s \<noteq> 0 \<Longrightarrow> (sin a * s)\<^sup>2 + (cos a * s)\<^sup>2 \<noteq> 0" for a s :: real
  by (simp only: speed_sq_eq) simp

lemma distance_3d_zero_iff:
  "sqrt ((sqrt (dx\<^sup>2 + dy\<^sup>2) * 1000)\<^sup>2 + a\<^sup>2) / 1000 = 0 \<longleftrightarrow> dx = 0 \<and> dy = 0 \<and> a = 0"
  for dx dy a :: real
proof -
  have "sqrt ((sqrt (dx\<^sup>2 + dy\<^sup>2) * 1000)\<^sup>2 + a\<^sup>2) / 1000 = 0
        \<longleftrightarrow> (sqrt (dx\<^sup>2 + dy\<^sup>2) * 1000)\<^sup>2 + a\<^sup>2 = 0"
    by (simp only: divide_eq_0_iff real_sqrt_eq_zero_cancel_iff) simp
  also have "\<dots> \<longleftrightarrow> sqrt (dx\<^sup>2 + dy\<^sup>2) * 1000 = 0 \<and> a = 0"
    by (rule sum_power2_eq_zero_iff)
  also have "\<dots> \<longleftrightarrow> dx\<^sup>2 + dy\<^sup>2 = 0 \<and> a = 0"
    by simp
  also have "\<dots> \<longleftrightarrow> dx = 0 \<and> dy = 0 \<and> a = 0"
    by (simp only: sum_power2_eq_zero_iff conj_assoc)
  finally show ?thesis .
qed

section \<open>Time until the closest approach\<close>

lemma time_until_closest_still:
  "ground_speed (position f) = None \<or> ground_speed (position f) = Some 0 \<Longrightarrow>
   time_until_closest f lat lon = Inr PosInf"
  by (auto simp: time_until_closest_def Let_def)

lemma time_until_closest_moving:
  assumes "ground_speed (position f) = Some s" "s \<noteq> 0"
  shows "time_until_closest f lat lon =
    (let h = (case heading (position f) of None \<Rightarrow> 0 | Some h \<Rightarrow> h);
         vx = sin (deg2rad h) * s;
         vy = cos (deg2rad h) * s;
         dx = (latitude (position f) - lat) * 111;
         dy = (longitude (position f) - lon) * 111;
         t_cpa = - (dx * vx + dy * vy) / (vx\<^sup>2 + vy\<^sup>2)
     in if t_cpa < 0 then Inr PosInf else Inr (Num (t_cpa * 60)))"
proof -
  let ?h = "case heading (position f) of None \<Rightarrow> 0 | Some h \<Rightarrow> h"
  have nz: "(sin (deg2rad ?h) * s)\<^sup>2 + (cos (deg2rad ?h) * s)\<^sup>2 \<noteq> 0"
    using assms(2) by (rule speed_sq_nonzero)
  show ?thesis
    unfolding time_until_closest_def Let_def py_truediv_def
    using assms nz by simp
qed

lemma time_until_closest_cases:
  "time_until_closest f lat lon = Inr PosInf \<or>
   (\<exists>t. 0 \<le> t \<and> time_until_closest f lat lon = Inr (Num t))"
proof (cases "ground_speed (position f) = None \<or> ground_speed (position f) = Some 0")
  case True
  then show ?thesis by (simp add: time_until_closest_still)
next
  case False
  then obtain s where s: "ground_speed (position f) = Some s" "s \<noteq> 0" by auto
  define t where "t = (let h = (case heading (position f) of None \<Rightarrow> 0 | Some h \<Rightarrow> h);
         vx = sin (deg2rad h) * s;
         vy = cos (deg2rad h) * s;
         dx = (latitude (position f) - lat) * 111;
         dy = (longitude (position f) - lon) * 111
     in - (dx * vx + dy * vy) / (vx\<^sup>2 + vy\<^sup>2))"
  have eq: "time_until_closest f lat lon = (if t < 0 then Inr PosInf else Inr (Num (t * 60)))"
    unfolding t_def using time_until_closest_moving [OF s, of lat lon]
    by (simp only: Let_def)
  show ?thesis
  proof (cases "t < 0")
    case True
    with eq show ?thesis by simp
  next
    case False
    then have "0 \<le> t * 60" by simp
    with False eq show ?thesis by auto
  qed
qed

lemma time_until_closest_returns: "\<exists>t. time_until_closest f lat lon = Inr t"
  using time_until_closest_cases [of f lat lon] by auto

text \<open>
  C1 (the code departs from the claim). For the flight one degree north of the observer
  that heads due south at 500 km/h, \<open>calculate_distance\<close> returns 111 km, as claimed, but
  \<open>time_until_closest\<close> does not return about 13.3 minutes: the latitude offset \<open>dx\<close> is
  multiplied by the sine of the heading and the longitude offset by its cosine, so the
  dot product is 0 and the result is 0 minutes. (With rounded floats the sine of
  \<open>pi\<close> is a tiny positive number, \<open>t_cpa\<close> a tiny negative one, and the program
  returns infinity: no 13.3 minutes either.)
\<close>

theorem closing_example_distance_and_time:
  "calculate_distance closing_flight 0 0 = Num 111 \<and>
   time_until_closest closing_flight 0 0 = Inr (Num 0)"
  by (simp add: calculate_distance_def time_until_closest_def closing_flight_def
      feet_to_meters_def deg2rad_def py_truediv_def Let_def)

text \<open>
  C2 (the code departs from the claim). For the same flight heading due north, away from
  the observer, \<open>time_until_closest\<close> does not return infinity: the computed \<open>t_cpa\<close> is 0,
  not negative, and the result is 0 minutes.
\<close>

theorem receding_example_time:
  "time_until_closest receding_flight 0 0 = Inr (Num 0) \<and>
   time_until_closest receding_flight 0 0 \<noteq> Inr PosInf"
  by (simp add: time_until_closest_def receding_flight_def deg2rad_def py_truediv_def Let_def)

text \<open>
  C6. When the ground speed is 0 or absent, \<open>time_until_closest\<close> returns infinity for every
  heading and position, and it returns: no exception, in particular none from the division.
\<close>

theorem zero_speed_time_is_infinite:
  assumes "ground_speed (position f) = None \<or> ground_speed (position f) = Some 0"
  shows "time_until_closest f lat lon = Inr PosInf"
  using assms by (rule time_until_closest_still)

theorem zero_speed_time_is_infinite_witness:
  "ground_speed (position parked_flight) = Some 0 \<and>
   time_until_closest parked_flight 5 7 = Inr PosInf \<and>
   ground_speed (position anonymous_flight) = None \<and>
   time_until_closest anonymous_flight 5 7 = Inr PosInf"
  using zero_speed_time_is_infinite [of parked_flight 5 7]
    zero_speed_time_is_infinite [of anonymous_flight 5 7]
  by (simp add: parked_flight_def anonymous_flight_def)

text \<open>
  C7. With a ground speed other than 0, the divisor \<open>vx\<^sup>2 + vy\<^sup>2\<close> is not 0 and
  \<open>time_until_closest\<close> returns infinity when
  \<open>t_cpa = - (dx * vx + dy * vy) / (vx\<^sup>2 + vy\<^sup>2)\<close> is negative, and \<open>t_cpa * 60\<close> otherwise.
\<close>

theorem nonzero_speed_time:
  assumes "ground_speed (position f) = Some s" and "s \<noteq> 0"
  shows "(let h = (case heading (position f) of None \<Rightarrow> 0 | Some h \<Rightarrow> h);
              vx = sin (deg2rad h) * s;
              vy = cos (deg2rad h) * s;
              dx = (latitude (position f) - lat) * 111;
              dy = (longitude (position f) - lon) * 111;
              t_cpa = - (dx * vx + dy * vy) / (vx\<^sup>2 + vy\<^sup>2)
          in vx\<^sup>2 + vy\<^sup>2 \<noteq> 0 \<and>
             time_until_closest f lat lon =
               (if t_cpa < 0 then Inr PosInf else Inr (Num (t_cpa * 60))))"
proof -
  let ?h = "case heading (position f) of None \<Rightarrow> 0 | Some h \<Rightarrow> h"
  have nz: "(sin (deg2rad ?h) * s)\<^sup>2 + (cos (deg2rad ?h) * s)\<^sup>2 \<noteq> 0"
    using assms(2) by (rule speed_sq_nonzero)
  from time_until_closest_moving [OF assms, of lat lon] nz
  show ?thesis by (simp only: Let_def simp_thms)
qed

theorem nonzero_speed_time_witness:
  "ground_speed (position abeam_flight) = Some 500 \<and> (500::real) \<noteq> 0 \<and>
   time_until_closest abeam_flight 0 0 = Inr (Num (333 / 25)) \<and>
   time_until_closest abeam_flight 0 2 = Inr PosInf"
  using nonzero_speed_time [of abeam_flight 500 0 0] nonzero_speed_time [of abeam_flight 500 0 2]
  by (simp add: abeam_flight_def deg2rad_def Let_def)

text \<open>
  C10. \<open>time_until_closest\<close> returns either infinity or a finite number that is not
  negative.
\<close>

theorem time_until_closest_not_negative:
  "time_until_closest f lat lon = Inr PosInf \<or>
   (\<exists>t. 0 \<le> t \<and> time_until_closest f lat lon = Inr (Num t))"
  by (rule time_until_closest_cases)

section \<open>Distance\<close>

text \<open>
  C8. \<open>calculate_distance\<close> returns 0 exactly when the flight has the observer's latitude
  and longitude and its altitude, 0 when absent, is 0 metres.
\<close>

theorem calculate_distance_zero_iff:
  "calculate_distance f lat lon = Num 0 \<longleftrightarrow>
     latitude (position f) = lat \<and> longitude (position f) = lon \<and>
     feet_to_meters (Num (case altitude (position f) of None \<Rightarrow> 0 | Some a \<Rightarrow> a)) = Num 0"
  unfolding calculate_distance_def feet_to_meters_def Let_def
  by (simp only: py_mul_const.simps py_div_const.simps pyfloat.case pyfloat.inject
      distance_3d_zero_iff) simp

section \<open>The alert decision\<close>

text \<open>
  C4. \<open>should_send_alert\<close> returns the conjunction of the three threshold tests: the
  altitude in metres (infinity when absent) against the altitude threshold, the distance
  against the distance threshold, and the time until the closest approach, which is
  always returned, against the time threshold. So it is true exactly when all three hold.
\<close>

theorem should_send_alert_is_conjunction:
  "\<exists>t. time_until_closest f lat lon = Inr t \<and>
       should_send_alert cfg f lat lon =
         Inr (py_le (feet_to_meters (case altitude (position f) of
                                       None \<Rightarrow> PosInf | Some a \<Rightarrow> Num a))
                    (ALERT_ALTITUDE_THRESHOLD_M cfg) \<and>
              py_le (calculate_distance f lat lon) (ALERT_DISTANCE_THRESHOLD_KM cfg) \<and>
              py_le t (ALERT_TIME_THRESHOLD_MIN cfg))"
proof -
  obtain t where t: "time_until_closest f lat lon = Inr t"
    using time_until_closest_returns by blast
  then show ?thesis
    by (simp add: should_send_alert_def Let_def)
qed

text \<open>
  C5. A flight without an altitude is never low, and no alert is sent for it wherever the
  observer stands, provided the alert altitude threshold is finite.
\<close>

theorem missing_altitude_no_alert:
  assumes "altitude (position f) = None"
    and "ALERT_ALTITUDE_THRESHOLD_M cfg = Num limit"
  shows "\<not> is_low_altitude cfg f \<and> should_send_alert cfg f lat lon = Inr False"
proof -
  obtain t where t: "time_until_closest f lat lon = Inr t"
    using time_until_closest_returns by blast
  with assms show ?thesis
    by (simp add: is_low_altitude_def should_send_alert_def feet_to_meters_def Let_def)
qed

theorem missing_altitude_no_alert_witness:
  "altitude (position anonymous_flight) = None \<and>
   ALERT_ALTITUDE_THRESHOLD_M default_config = Num 1000 \<and>
   \<not> is_low_altitude default_config anonymous_flight \<and>
   should_send_alert default_config anonymous_flight 0 0 = Inr False"
  using missing_altitude_no_alert [of anonymous_flight default_config 1000 0 0]
  by (simp add: anonymous_flight_def default_config_def)

section \<open>The flight label\<close>

text \<open>
  C3 (amended). The label is the first of number, callsign and icao_24bit that is
  present, not empty and not the placeholder \<^verbatim>\<open>"N/A"\<close>; when there is none, the label is
  \<^verbatim>\<open>"N/A"\<close>.
\<close>

theorem flight_id_first_label:
  "flight_id f =
     (if is_label (number f) then the (number f)
      else if is_label (callsign f) then the (callsign f)
      else if is_label (icao_24bit f) then the (icao_24bit f)
      else ''N/A'')"
  by (cases "number f"; cases "callsign f"; cases "icao_24bit f")
     (simp_all add: flight_id_def is_label_def)

text \<open>
  The claim as first stated fails twice: a flight with no label at all is called
  \<^verbatim>\<open>"N/A"\<close>, not \<^verbatim>\<open>"unknown"\<close>, and a number \<^verbatim>\<open>"N/A"\<close>, though not empty, is passed over.
\<close>

theorem flight_id_unknown_counterexample:
  "number anonymous_flight = None \<and> callsign anonymous_flight = None \<and>
   icao_24bit anonymous_flight = None \<and> flight_id anonymous_flight \<noteq> ''unknown'' \<and>
   number placeholder_flight = Some ''N/A'' \<and> flight_id placeholder_flight \<noteq> ''N/A''"
  by (simp add: flight_id_def anonymous_flight_def placeholder_flight_def)

section \<open>The unassigned alert message\<close>

lemma process_flight_not_low:
  assumes "should_send_alert cfg f lat lon = Inr True"
    and "\<not> is_low_altitude cfg f"
    and "altitude (position f) = Some a"
  shows "process_flight cfg lat lon f None = Inl UnboundLocalError"
    and "\<exists>out. process_flight cfg lat lon f (Some m) =
           Inr (out @ [Send_email (alert_subject cfg) m], Some m)"
proof -
  obtain t where t: "time_until_closest f lat lon = Inr t"
    using time_until_closest_returns by blast
  with assms show "process_flight cfg lat lon f None = Inl UnboundLocalError"
    by (simp add: process_flight_def Let_def)
  from t assms show "\<exists>out. process_flight cfg lat lon f (Some m) =
           Inr (out @ [Send_email (alert_subject cfg) m], Some m)"
    by (simp add: process_flight_def Let_def)
qed

text \<open>
  C9. There are inputs for which the first target flight of a poll meets the alert
  thresholds without being low: whenever that happens, the e-mail is built from an
  \<open>alert_message\<close> that this flight never assigned. In a fresh process the variable is
  unbound and \<open>monitor_flights\<close> stops with an unbound-name error; when an earlier
  low-altitude flight has left a message behind, that stale message is sent.
\<close>

theorem unassigned_alert_message:
  assumes "should_send_alert cfg f lat lon = Inr True"
    and "\<not> is_low_altitude cfg f"
    and "altitude (position f) = Some a"
    and "found d"
    and "filter (is_target_aircraft cfg) (flights d) = f # others"
  shows "monitor_flights cfg lat lon (d # later) = Inl UnboundLocalError \<and>
         (\<exists>out. process_flight cfg lat lon f (Some stale) =
            Inr (out @ [Send_email (alert_subject cfg) stale], Some stale))"
proof -
  have "process_flight cfg lat lon f None = Inl UnboundLocalError"
    using assms(1-3) by (rule process_flight_not_low)
  then have "poll_cycle cfg lat lon d None = Inl UnboundLocalError"
    using assms(4,5) by (simp add: poll_cycle_def Let_def)
  then have "monitor_flights cfg lat lon (d # later) = Inl UnboundLocalError"
    by (simp add: monitor_flights_def)
  moreover have "\<exists>out. process_flight cfg lat lon f (Some stale) =
            Inr (out @ [Send_email (alert_subject cfg) stale], Some stale)"
    using assms(1-3) by (rule process_flight_not_low)
  ultimately show ?thesis by simp
qed

lemma overhead_flight_alert:
  "should_send_alert low500_config overhead_flight 0 0 = Inr True"
  by (simp add: should_send_alert_def time_until_closest_def calculate_distance_def
      feet_to_meters_def deg2rad_def py_truediv_def overhead_flight_def low500_config_def
      default_config_def Let_def)

lemma overhead_flight_not_low: "\<not> is_low_altitude low500_config overhead_flight"
  by (simp add: is_low_altitude_def feet_to_meters_def overhead_flight_def low500_config_def
      default_config_def Let_def)

lemma overhead_flight_is_target:
  "filter (is_target_aircraft low500_config) (flights overhead_response) = overhead_flight # []"
  by (simp add: is_target_aircraft_def overhead_response_def overhead_flight_def
      low500_config_def default_config_def)

theorem unassigned_alert_message_witness:
  "should_send_alert low500_config overhead_flight 0 0 = Inr True \<and>
   \<not> is_low_altitude low500_config overhead_flight \<and>
   altitude (position overhead_flight) = Some 2000 \<and>
   found overhead_response \<and>
   filter (is_target_aircraft low500_config) (flights overhead_response) = [overhead_flight] \<and>
   monitor_flights low500_config 0 0 [overhead_response] = Inl UnboundLocalError \<and>
   (\<exists>out. process_flight low500_config 0 0 overhead_flight
             (Some (Low_altitude_alert (Some ''A400'') ''RR1'' (Num 0) (Num 0) PosInf)) =
      Inr (out @ [Send_email (alert_subject low500_config)
                    (Low_altitude_alert (Some ''A400'') ''RR1'' (Num 0) (Num 0) PosInf)],
           Some (Low_altitude_alert (Some ''A400'') ''RR1'' (Num 0) (Num 0) PosInf)))"
proof -
  have alt: "altitude (position overhead_flight) = Some 2000"
    by (simp add: overhead_flight_def)
  have fnd: "found overhead_response"
    by (simp add: overhead_response_def)
  from unassigned_alert_message [OF overhead_flight_alert overhead_flight_not_low alt fnd
      overhead_flight_is_target, of "[]"
      "Low_altitude_alert (Some ''A400'') ''RR1'' (Num 0) (Num 0) PosInf"]
    overhead_flight_alert overhead_flight_not_low alt fnd overhead_flight_is_target
  show ?thesis by simp
qed

subsection \<open>A stale message, step by step\<close>

text \<open>
  One poll that finds the flight at 1000 ft and then the flight at 2000 ft, with "low"
  meaning below 500 m: both meet the alert thresholds, and the e-mail for the second
  carries the text written for the first.
\<close>

lemma low_flight_time: "time_until_closest low_flight 0 0 = Inr (Num 0)"
  by (simp add: time_until_closest_def low_flight_def deg2rad_def py_truediv_def Let_def)

lemma overhead_flight_time: "time_until_closest overhead_flight 0 0 = Inr (Num 0)"
  by (simp add: time_until_closest_def overhead_flight_def deg2rad_def py_truediv_def Let_def)

lemma low_flight_is_low: "is_low_altitude low500_config low_flight"
  by (simp add: is_low_altitude_def feet_to_meters_def low_flight_def low500_config_def
      default_config_def Let_def)

lemma low_flight_alert: "should_send_alert low500_config low_flight 0 0 = Inr True"
  by (simp add: should_send_alert_def time_until_closest_def calculate_distance_def
      feet_to_meters_def deg2rad_def py_truediv_def low_flight_def low500_config_def
      default_config_def Let_def)

lemma low500_target: "TARGET_AIRCRAFT_CODE low500_config = Some ''A400''"
  by (simp add: low500_config_def default_config_def)

lemma low_flight_fields:
  "altitude (position low_flight) = Some 1000" "flight_id low_flight = ''RRR4005''"
  by (simp_all add: low_flight_def flight_id_def)

lemma overhead_flight_fields:
  "altitude (position overhead_flight) = Some 2000" "flight_id overhead_flight = ''RR2''"
  by (simp_all add: overhead_flight_def flight_id_def)

lemma low_flight_processed:
  "process_flight low500_config 0 0 low_flight None =
     Inr ([Print_alert (Low_altitude_alert (Some ''A400'') ''RRR4005'' (feet_to_meters (Num 1000))
             (calculate_distance low_flight 0 0) (Num 0)),
           Send_email ''Aircraft A400 Alert''
             (Low_altitude_alert (Some ''A400'') ''RRR4005'' (feet_to_meters (Num 1000))
                (calculate_distance low_flight 0 0) (Num 0))],
          Some (Low_altitude_alert (Some ''A400'') ''RRR4005'' (feet_to_meters (Num 1000))
                  (calculate_distance low_flight 0 0) (Num 0)))"
  unfolding process_flight_def Let_def
  by (simp add: low_flight_time low_flight_is_low low_flight_alert alert_subject_def
      low_flight_fields low500_target)

lemma overhead_flight_processed:
  "process_flight low500_config 0 0 overhead_flight (Some m) =
     Inr ([Print_detected (Some ''A400'') ''RR2'' (feet_to_meters (Num 2000))
             (calculate_distance overhead_flight 0 0) (Num 0),
           Send_email ''Aircraft A400 Alert'' m],
          Some m)"
  unfolding process_flight_def Let_def
  by (simp add: overhead_flight_time overhead_flight_not_low overhead_flight_alert
      alert_subject_def overhead_flight_fields low500_target)

lemma stale_message_example:
  "monitor_flights low500_config 0 0 [mixed_response] =
     Inr [Print_monitoring, Print_found 2, Print_detected_count 2,
          Print_alert (Low_altitude_alert (Some ''A400'') ''RRR4005'' (feet_to_meters (Num 1000))
             (calculate_distance low_flight 0 0) (Num 0)),
          Send_email ''Aircraft A400 Alert''
            (Low_altitude_alert (Some ''A400'') ''RRR4005'' (feet_to_meters (Num 1000))
               (calculate_distance low_flight 0 0) (Num 0)),
          Print_detected (Some ''A400'') ''RR2'' (feet_to_meters (Num 2000))
             (calculate_distance overhead_flight 0 0) (Num 0),
          Send_email ''Aircraft A400 Alert''
            (Low_altitude_alert (Some ''A400'') ''RRR4005'' (feet_to_meters (Num 1000))
               (calculate_distance low_flight 0 0) (Num 0)),
          Print_separator]"
proof -
  have targets: "filter (is_target_aircraft low500_config) (flights mixed_response) =
      [low_flight, overhead_flight]"
    by (simp add: is_target_aircraft_def mixed_response_def low_flight_def overhead_flight_def
        low500_config_def default_config_def)
  have len: "length (flights mixed_response) = 2" "found mixed_response"
    by (simp_all add: mixed_response_def)
  show ?thesis
    by (simp add: monitor_flights_def poll_cycle_def Let_def targets len
        low_flight_processed overhead_flight_processed)
qed

end
